theory Spec2Isabelle
  imports Complex_Main "HOL-Library.Sublist" "HOL-Library.Log_Nat"
begin

section \<open>ResponseCache: the class APICache\<close>

text \<open>
  \<^verbatim>\<open>APICache\<close> keeps an \<^verbatim>\<open>OrderedDict\<close> from keys to pairs \<^verbatim>\<open>(value, timestamp)\<close>.
  The dictionary is an association list in iteration order: the head is the entry that
  \<^verbatim>\<open>popitem(last=False)\<close> removes, the last element is where \<^verbatim>\<open>move_to_end\<close> and the
  assignment of a new key put an entry. A stored value is a Python value that may be
  \<^verbatim>\<open>None\<close>, so it is an option; \<^verbatim>\<open>get\<close> answers \<^verbatim>\<open>None\<close> on a miss as well, exactly as the
  source does. The reading of \<^verbatim>\<open>time.time()\<close> is an argument of each operation, a real
  number of seconds.
\<close>

datatype py_error = KeyError

type_synonym ('k, 'v) ordered_dict = "('k \<times> 'v) list"

definition od_contains :: "'k \<Rightarrow> ('k, 'v) ordered_dict \<Rightarrow> bool" where
  "od_contains key od = (map_of od key \<noteq> None)"

definition od_delete :: "'k \<Rightarrow> ('k, 'v) ordered_dict \<Rightarrow> ('k, 'v) ordered_dict" where
  "od_delete key od = filter (\<lambda>e. fst e \<noteq> key) od"

definition move_to_end :: "'k \<Rightarrow> ('k, 'v) ordered_dict \<Rightarrow> ('k, 'v) ordered_dict" where
  "move_to_end key od =
     (case map_of od key of None \<Rightarrow> od | Some v \<Rightarrow> od_delete key od @ [(key, v)])"

definition od_setitem :: "'k \<Rightarrow> 'v \<Rightarrow> ('k, 'v) ordered_dict \<Rightarrow> ('k, 'v) ordered_dict" where
  "od_setitem key v od =
     (if od_contains key od then map (\<lambda>e. if fst e = key then (key, v) else e) od
      else od @ [(key, v)])"

definition popitem_first :: "('k, 'v) ordered_dict \<Rightarrow> py_error + ('k, 'v) ordered_dict" where
  "popitem_first od = (case od of [] \<Rightarrow> Inl KeyError | e # rest \<Rightarrow> Inr rest)"

record ('k, 'v) APICache =
  cache :: "('k, 'v option \<times> real) ordered_dict"
  max_size :: int
  ttl :: real

definition APICache_get ::
  "real \<Rightarrow> 'k \<Rightarrow> ('k, 'v) APICache \<Rightarrow> 'v option \<times> ('k, 'v) APICache" where
  "APICache_get now key c =
     (case map_of (cache c) key of
        None \<Rightarrow> (None, c)
      | Some (data, timestamp) \<Rightarrow>
          if now - timestamp < ttl c
          then (data, c\<lparr>cache := move_to_end key (cache c)\<rparr>)
          else (None, c\<lparr>cache := od_delete key (cache c)\<rparr>))"

definition APICache_set ::
  "real \<Rightarrow> 'k \<Rightarrow> 'v option \<Rightarrow> ('k, 'v) APICache \<Rightarrow> py_error + ('k, 'v) APICache" where
  "APICache_set now key val c =
     (if od_contains key (cache c)
      then Inr (c\<lparr>cache := od_setitem key (val, now) (move_to_end key (cache c))\<rparr>)
      else if max_size c \<le> int (length (cache c))
      then (case popitem_first (cache c) of
              Inl e \<Rightarrow> Inl e
            | Inr rest \<Rightarrow> Inr (c\<lparr>cache := od_setitem key (val, now) rest\<rparr>))
      else Inr (c\<lparr>cache := od_setitem key (val, now) (cache c)\<rparr>))"

text \<open>The process-wide instance: \<^verbatim>\<open>API_CACHE = APICache(max_size=2000, ttl=3600)\<close>.\<close>

definition API_CACHE :: "(string, 'v) APICache" where
  "API_CACHE = \<lparr>cache = [], max_size = 2000, ttl = 3600\<rparr>"


section \<open>FetchClient: api_request_with_cache\<close>

text \<open>
  The network is an oracle \<open>net\<close>: for the \<open>i\<close>-th call of \<^verbatim>\<open>requests.get\<close> made so far it
  tells how long the call takes and how it ends: with a response (status code, whether
  \<^verbatim>\<open>response.content\<close> is empty, and what \<^verbatim>\<open>response.json()\<close> does), or with one of the
  exceptions the function catches. The state is what the function reads and writes:
  \<^verbatim>\<open>API_CACHE\<close>, the clock, the number of calls of \<^verbatim>\<open>requests.get\<close> made so far, and the
  arguments of the \<^verbatim>\<open>time.sleep\<close> calls made so far. Headers, the per-family timeout
  and the logging do not change what is returned or stored and are left out.
\<close>

datatype 'v body = JSONDecodeError | Parsed "'v option"

datatype 'v outcome = Response int bool "'v body" | Timeout | HTTPError int | RequestError

record 'v fetch_state =
  api_cache :: "(string, 'v) APICache"
  clock :: real
  requests :: nat
  sleeps :: "real list"

definition sleep :: "real \<Rightarrow> 'v fetch_state \<Rightarrow> 'v fetch_state" where
  "sleep d s = s\<lparr>clock := clock s + d, sleeps := sleeps s @ [d]\<rparr>"

text \<open>
  \<^verbatim>\<open>API_CACHE.set(cache_key, value)\<close>. The instance has \<^verbatim>\<open>max_size=2000\<close>, so \<^verbatim>\<open>popitem\<close> never
  meets an empty dictionary (lemma \<open>APICache_set_total\<close>) and the \<open>Inl\<close> branch is not
  taken in a state whose cache has a positive \<open>max_size\<close>.
\<close>

definition cache_store :: "string \<Rightarrow> 'v option \<Rightarrow> 'v fetch_state \<Rightarrow> 'v fetch_state" where
  "cache_store key v s =
     (case APICache_set (clock s) key v (api_cache s) of
        Inr c \<Rightarrow> s\<lparr>api_cache := c\<rparr>
      | Inl e \<Rightarrow> s)"

text \<open>
  The loop \<^verbatim>\<open>for attempt in range(retries + 1)\<close>: \<open>todo\<close> counts the iterations left,
  \<open>attempt\<close> is the loop variable. Leaving the loop without a \<^verbatim>\<open>return\<close> reaches the final
  \<^verbatim>\<open>API_CACHE.set(cache_key, None)\<close>.
\<close>

fun attempts ::
  "(nat \<Rightarrow> real \<times> 'v outcome) \<Rightarrow> string \<Rightarrow> int \<Rightarrow> nat \<Rightarrow> nat \<Rightarrow> 'v fetch_state \<Rightarrow>
   'v option \<times> 'v fetch_state" where
  "attempts net key retries 0 attempt s = (None, cache_store key None s)"
| "attempts net key retries (Suc todo) attempt s =
     (let s1 = s\<lparr>clock := clock s + fst (net (requests s)), requests := Suc (requests s)\<rparr>
      in case snd (net (requests s)) of
        Response status_code no_content body \<Rightarrow>
          if status_code = 204 then (None, cache_store key None s1)
          else if status_code = 404 then (None, cache_store key None s1)
          else if 400 \<le> status_code \<and> status_code \<noteq> 204 then
            (if status_code = 429 \<and> int attempt < retries
             then attempts net key retries todo (Suc attempt) (sleep (2 ^ (attempt + 1)) s1)
             else (None, cache_store key None s1))
          else if status_code = 204 \<or> no_content then (None, cache_store key None s1)
          else (case body of
                  Parsed data \<Rightarrow> (data, cache_store key data s1)
                | JSONDecodeError \<Rightarrow> (None, cache_store key None s1))
      | Timeout \<Rightarrow>
          if int attempt < retries
          then attempts net key retries todo (Suc attempt) (sleep (1 / 2) s1)
          else (None, cache_store key None s1)
      | HTTPError code \<Rightarrow>
          if code = 429 \<and> int attempt < retries
          then attempts net key retries todo (Suc attempt) (sleep (2 ^ (attempt + 1)) s1)
          else (None, cache_store key None s1)
      | RequestError \<Rightarrow>
          if int attempt < retries
          then attempts net key retries todo (Suc attempt) (sleep (1 / 2) s1)
          else (None, cache_store key None s1))"

text \<open>
  \<^verbatim>\<open>cache_key = url + str(params)\<close> unless the caller names a key; \<open>params\<close> stands for
  \<^verbatim>\<open>str(params)\<close>.
\<close>

definition request_key :: "string \<Rightarrow> string \<Rightarrow> string option \<Rightarrow> string" where
  "request_key url params cache_key = (case cache_key of None \<Rightarrow> url @ params | Some k \<Rightarrow> k)"

definition api_request_with_cache ::
  "(nat \<Rightarrow> real \<times> 'v outcome) \<Rightarrow> string \<Rightarrow> string \<Rightarrow> string option \<Rightarrow> int \<Rightarrow> 'v fetch_state \<Rightarrow>
   'v option \<times> 'v fetch_state" where
  "api_request_with_cache net url params cache_key retries s =
     (let key = request_key url params cache_key;
          looked = APICache_get (clock s) key (api_cache s);
          s0 = s\<lparr>api_cache := snd looked\<rparr>
      in if fst looked \<noteq> None then (fst looked, s0)
         else attempts net key retries (nat (retries + 1)) 0 s0)"

section \<open>TextHeuristics: characters, strings and patterns\<close>

text \<open>
  Strings are ASCII. The character tests are the ASCII part of what \<^verbatim>\<open>str.isdigit\<close>,
  \<^verbatim>\<open>str.strip\<close>, \<^verbatim>\<open>str.lower\<close> and the classes \<^verbatim>\<open>\d\<close>, \<^verbatim>\<open>\s\<close>, \<^verbatim>\<open>\w\<close>, \<^verbatim>\<open>[A-Z]\<close>, \<^verbatim>\<open>[a-z]\<close> of \<^verbatim>\<open>re\<close>
  accept.
\<close>

definition is_digit :: "char \<Rightarrow> bool" where
  "is_digit c = (48 \<le> (of_char c :: nat) \<and> (of_char c :: nat) \<le> 57)"

definition is_upper :: "char \<Rightarrow> bool" where
  "is_upper c = (65 \<le> (of_char c :: nat) \<and> (of_char c :: nat) \<le> 90)"

definition is_lower :: "char \<Rightarrow> bool" where
  "is_lower c = (97 \<le> (of_char c :: nat) \<and> (of_char c :: nat) \<le> 122)"

definition is_space :: "char \<Rightarrow> bool" where
  "is_space c = ((9 \<le> (of_char c :: nat) \<and> (of_char c :: nat) \<le> 13) \<or>
                 (28 \<le> (of_char c :: nat) \<and> (of_char c :: nat) \<le> 32))"

definition is_word :: "char \<Rightarrow> bool" where
  "is_word c = (is_digit c \<or> is_upper c \<or> is_lower c \<or> c = CHR ''_'')"

definition lower_char :: "char \<Rightarrow> char" where
  "lower_char c = (if is_upper c then char_of ((of_char c :: nat) + 32) else c)"


definition py_strip :: "string \<Rightarrow> string" where
  "py_strip s = rev (dropWhile is_space (rev (dropWhile is_space s)))"



text \<open>
  \<^verbatim>\<open>int(s)\<close> on the strings the patterns capture (runs of digits); on anything else the
  model answers \<open>None\<close>, where the source would reach its \<^verbatim>\<open>except\<close> clause.
\<close>

definition digit_value :: "char \<Rightarrow> nat" where
  "digit_value c = (of_char c :: nat) - 48"

definition py_int :: "string \<Rightarrow> int option" where
  "py_int s =
     (if s \<noteq> [] \<and> list_all is_digit s
      then Some (int (foldl (\<lambda>a c. 10 * a + digit_value c) 0 s))
      else None)"

text \<open>
  The patterns of the source are built from single-character classes, bounded or
  unbounded repetitions of a class (greedy or lazy), concatenation, capture groups and the
  anchor \<^verbatim>\<open>$\<close>. A matcher returns every way the pattern can match a prefix of the text, in
  the order in which the backtracking matcher of \<^verbatim>\<open>re\<close> tries them: the head of the list is
  the match \<^verbatim>\<open>re\<close> reports. Each result is the list of captured groups and the rest of the
  text.
\<close>

datatype char_class =
  Digit | Space | Space_Or_Word | Upper_AZ | Lower_az | Ignore_Case char | Exactly char

fun in_class :: "char_class \<Rightarrow> char \<Rightarrow> bool" where
  "in_class Digit c = is_digit c"
| "in_class Space c = is_space c"
| "in_class Space_Or_Word c = (is_space c \<or> is_word c)"
| "in_class Upper_AZ c = is_upper c"
| "in_class Lower_az c = is_lower c"
| "in_class (Ignore_Case x) c = (lower_char c = lower_char x)"
| "in_class (Exactly x) c = (c = x)"

datatype regex =
  Eps
| Atom char_class
| Rep char_class nat "nat option" bool
| Cat regex regex
| Group regex
| End_Of_String

text \<open>
  \<open>Rep cls lo hi greedy\<close>: between \<open>lo\<close> and \<open>hi\<close> characters of the class (no upper bound
  for \<open>None\<close>), the longest run first when greedy and the shortest first when lazy.
\<close>

definition rep_match :: "(char \<Rightarrow> bool) \<Rightarrow> nat \<Rightarrow> nat option \<Rightarrow> bool \<Rightarrow> string \<Rightarrow> string list" where
  "rep_match cls lo hi greedy s =
     (let n = length (takeWhile cls s);
          top = (case hi of None \<Rightarrow> n | Some h \<Rightarrow> min h n);
          counts = [lo..<Suc top]
      in map (\<lambda>i. drop i s) (if greedy then rev counts else counts))"

fun rmatch :: "regex \<Rightarrow> string \<Rightarrow> (string list \<times> string) list" where
  "rmatch Eps s = [([], s)]"
| "rmatch (Atom cls) s =
     (case s of [] \<Rightarrow> [] | c # cs \<Rightarrow> if in_class cls c then [([], cs)] else [])"
| "rmatch (Rep cls lo hi greedy) s = map (\<lambda>r. ([], r)) (rep_match (in_class cls) lo hi greedy s)"
| "rmatch (Cat a b) s =
     concat (map (\<lambda>r1. map (\<lambda>r2. (fst r1 @ fst r2, snd r2)) (rmatch b (snd r1))) (rmatch a s))"
| "rmatch (Group a) s =
     map (\<lambda>r. (take (length s - length (snd r)) s # fst r, snd r)) (rmatch a s)"
| "rmatch End_Of_String s = (if s = [] \<or> s = [CHR 0x0A] then [([], s)] else [])"

definition seq :: "regex list \<Rightarrow> regex" where
  "seq rs = foldr Cat rs Eps"

definition literal_nocase :: "string \<Rightarrow> regex" where
  "literal_nocase s = seq (map (\<lambda>c. Atom (Ignore_Case c)) s)"


text \<open>
  \<^verbatim>\<open>pattern.findall(text)\<close> for a pattern with groups: the groups of the leftmost match,
  then of the leftmost match after its end, and so on. \<open>skip\<close> counts the characters of
  the last match still to be stepped over.
\<close>

fun findall_from :: "regex \<Rightarrow> nat \<Rightarrow> string \<Rightarrow> string list list" where
  "findall_from r skip [] =
     (if skip = 0 then (case rmatch r [] of [] \<Rightarrow> [] | m # ms \<Rightarrow> [fst m]) else [])"
| "findall_from r skip (c # cs) =
     (if 0 < skip then findall_from r (skip - 1) cs
      else (case rmatch r (c # cs) of
              [] \<Rightarrow> findall_from r 0 cs
            | m # ms \<Rightarrow> fst m # findall_from r (length (c # cs) - length (snd m) - 1) cs))"

definition findall :: "regex \<Rightarrow> string \<Rightarrow> string list list" where
  "findall r s = findall_from r 0 s"



text \<open>
  \<^verbatim>\<open>DEPTH_PATTERNS\<close>, all compiled with \<^verbatim>\<open>re.IGNORECASE\<close>:
  \<^verbatim>\<open>depth[\s\w]{0,30}?(\d{1,5})\s*m\<close>, \<^verbatim>\<open>(\d{1,5})\s*m[\s\w]{0,20}depth\<close>,
  \<^verbatim>\<open>(\d{1,5})\s*-\s*(\d{1,5})\s*m\<close>, \<^verbatim>\<open>(\d{1,5})\s*meter\<close>, \<^verbatim>\<open>(\d{1,5})\s*to\s*(\d{1,5})\s*m\<close>.
\<close>

definition digits_1_5 :: regex where
  "digits_1_5 = Group (Rep Digit 1 (Some 5) True)"

definition spaces :: regex where
  "spaces = Rep Space 0 None True"

definition DEPTH_PATTERNS :: "regex list" where
  "DEPTH_PATTERNS =
     [seq [literal_nocase ''depth'', Rep Space_Or_Word 0 (Some 30) False, digits_1_5, spaces,
           literal_nocase ''m''],
      seq [digits_1_5, spaces, literal_nocase ''m'', Rep Space_Or_Word 0 (Some 20) True,
           literal_nocase ''depth''],
      seq [digits_1_5, spaces, Atom (Exactly CHR ''-''), spaces, digits_1_5, spaces,
           literal_nocase ''m''],
      seq [digits_1_5, spaces, literal_nocase ''meter''],
      seq [digits_1_5, spaces, literal_nocase ''to'', spaces, digits_1_5, spaces,
           literal_nocase ''m'']]"

section \<open>TextHeuristics: binary64 arithmetic\<close>

text \<open>
  A Python \<^verbatim>\<open>float\<close> is a binary64 number. Finite floats are rational numbers, and an
  arithmetic operation returns the exact result rounded to 53 significant bits, ties to
  the even significand. The model covers the normal range (no overflow, no subnormal
  results, no NaN), which is where depths in metres lie.
\<close>

definition round_half_even :: "rat \<Rightarrow> int" where
  "round_half_even q =
     (let f = \<lfloor>q\<rfloor>; r = q - of_int f
      in if r < 1 / 2 then f else if 1 / 2 < r then f + 1 else if even f then f else f + 1)"

text \<open>The integer \<open>k\<close> with \<open>2 ^ k \<le> x < 2 ^ (k + 1)\<close>, for a positive \<open>x\<close>.\<close>

definition floor_log2 :: "rat \<Rightarrow> int" where
  "floor_log2 x = (if 1 \<le> x then bitlen \<lfloor>x\<rfloor> - 1 else - bitlen (\<lceil>1 / x\<rceil> - 1))"

definition float_round :: "rat \<Rightarrow> rat" where
  "float_round x =
     (if x = 0 then 0
      else let e = floor_log2 \<bar>x\<bar> - 52
           in of_int (round_half_even (x / 2 powi e)) * 2 powi e)"

definition float_add :: "rat \<Rightarrow> rat \<Rightarrow> rat" where
  "float_add a b = float_round (a + b)"

definition float_truediv :: "rat \<Rightarrow> rat \<Rightarrow> rat" where
  "float_truediv a b = float_round (a / b)"

text \<open>
  \<^verbatim>\<open>sum(xs)\<close> on floats adds from the left, starting at \<^verbatim>\<open>0\<close>. (From version 3.12 on,
  CPython also carries a compensation term through the loop; on the inputs evaluated below
  both ways give the same float.)
\<close>

definition py_sum_floats :: "rat list \<Rightarrow> rat" where
  "py_sum_floats xs = foldl float_add 0 xs"

section \<open>TextHeuristics: depth and ocean basins\<close>

text \<open>
  What the extraction routines read of the upstream records. A JSON number is a rational.
  \<open>depth_value\<close> says what \<^verbatim>\<open>float(depth)\<close> does with the field: the field is \<^verbatim>\<open>None\<close>, or the
  conversion gives a float, or it raises and the record is skipped. The value under
  \<^verbatim>\<open>'occurrences'\<close> is a dictionary with its \<^verbatim>\<open>'results'\<close> list, or something else, for which
  the source takes \<^verbatim>\<open>results = []\<close>.
\<close>

datatype depth_value = No_Depth | Float_Of rat | Float_Raises

record occurrence =
  depth :: depth_value
  decimalLatitude :: "rat option"
  decimalLongitude :: "rat option"
  locality :: "string option"
  waterBody :: "string option"
  country :: "string option"

datatype occurrences_json = Occurrences_Dict "occurrence list" | Not_A_Dict

record obis_data =
  occurrences :: occurrences_json
  scientific_name :: string

record worms_record =
  scientificname :: "string option"
  valid_name :: "string option"
  status :: "string option"
  isMarine :: bool
  environment :: string
  record_distribution :: "string option"

record depth_info =
  min_depth :: "rat option"
  max_depth :: "rat option"
  avg_depth :: "rat option"
  record_count :: nat
  source :: string

definition occurrence_results :: "obis_data option \<Rightarrow> occurrence list" where
  "occurrence_results obis =
     (case obis of
        None \<Rightarrow> []
      | Some d \<Rightarrow> (case occurrences d of Occurrences_Dict results \<Rightarrow> results | Not_A_Dict \<Rightarrow> []))"

text \<open>The first part of \<^verbatim>\<open>extract_depth_from_obis_fast\<close>: the depths of the first 20 records.\<close>

definition obis_depths :: "obis_data option \<Rightarrow> rat list" where
  "obis_depths obis =
     List.map_filter (\<lambda>occ. case depth occ of Float_Of d \<Rightarrow> Some d | _ \<Rightarrow> None)
       (take 20 (occurrence_results obis))"

text \<open>
  The body of the loop over \<^verbatim>\<open>DEPTH_PATTERNS\<close> for the first match \<open>m\<close> of a pattern: a tuple
  of two groups or a single group. \<open>None\<close> is the \<^verbatim>\<open>except: continue\<close> of the source.
\<close>

definition clean_number :: "string \<Rightarrow> int option" where
  "clean_number m = py_int (py_strip (filter (\<lambda>c. c \<noteq> CHR '','') m))"

definition depth_of_match :: "string list \<Rightarrow> depth_info option" where
  "depth_of_match m =
     (if 2 \<le> length m
      then (let parsed = map clean_number (filter (\<lambda>g. g \<noteq> []) m)
            in if list_ex (\<lambda>p. p = None) parsed then None
               else (case map the parsed of
                       [] \<Rightarrow> Some \<lparr>min_depth = None, max_depth = None, avg_depth = None,
                                   record_count = 1, source = ''WoRMS''\<rparr>
                     | n # ns \<Rightarrow>
                         Some \<lparr>min_depth = Some (of_int (fold min ns n)),
                               max_depth = Some (of_int (fold max ns n)),
                               avg_depth = Some (float_truediv (of_int (sum_list (n # ns)))
                                                   (of_nat (length (n # ns)))),
                               record_count = 1, source = ''WoRMS''\<rparr>))
      else (case clean_number (hd m) of
              None \<Rightarrow> None
            | Some d \<Rightarrow> Some \<lparr>min_depth = Some (of_int d), max_depth = Some (of_int d),
                              avg_depth = Some (of_int d), record_count = 1,
                              source = ''WoRMS''\<rparr>))"

fun depth_from_text :: "regex list \<Rightarrow> string \<Rightarrow> depth_info option" where
  "depth_from_text [] env = None"
| "depth_from_text (pattern # patterns) env =
     (case findall pattern env of
        [] \<Rightarrow> depth_from_text patterns env
      | m # ms \<Rightarrow>
          (case depth_of_match m of
             None \<Rightarrow> depth_from_text patterns env
           | Some info \<Rightarrow> Some info))"

definition extract_depth_from_obis_fast :: "obis_data option \<Rightarrow> worms_record \<Rightarrow> depth_info option" where
  "extract_depth_from_obis_fast obis worms =
     (case obis_depths obis of
        d # ds \<Rightarrow>
          Some \<lparr>min_depth = Some (fold min ds d), max_depth = Some (fold max ds d),
                avg_depth = Some (float_truediv (py_sum_floats (d # ds)) (of_nat (length (d # ds)))),
                record_count = length (d # ds), source = ''OBIS v3''\<rparr>
      | [] \<Rightarrow> depth_from_text DEPTH_PATTERNS (environment worms))"

text \<open>
  The chain of tests in the loop of \<^verbatim>\<open>extract_ocean_basins_fast\<close>, for one pair of
  coordinates, in the order of the source; \<open>None\<close> when no branch adds a basin.
\<close>

definition basin_of :: "rat \<Rightarrow> rat \<Rightarrow> string option" where
  "basin_of lat lon =
     (if lon < - 30
      then (if 0 < lat then Some ''North Atlantic'' else Some ''South Atlantic'')
      else if - 30 \<le> lon \<and> lon \<le> 30 then Some ''Tropical Atlantic''
      else if 100 < lon \<and> lon < 180
      then (if 0 < lat then Some ''North Pacific'' else Some ''South Pacific'')
      else if lon < - 100 then Some ''Eastern Pacific''
      else if 30 < lon \<and> lon < 100 then Some ''Indian Ocean''
      else None)"

text \<open>
  A Python \<^verbatim>\<open>set\<close> of strings is a list without repetitions; the order in which \<^verbatim>\<open>list(s)\<close>
  enumerates it depends on the hashes and is the parameter \<open>set_order\<close>.
\<close>

definition set_add :: "'a \<Rightarrow> 'a list \<Rightarrow> 'a list" where
  "set_add x xs = (if x \<in> set xs then xs else xs @ [x])"

definition basins_step :: "occurrence \<Rightarrow> string list \<Rightarrow> string list" where
  "basins_step occ basins =
     (case (decimalLatitude occ, decimalLongitude occ) of
        (Some lat, Some lon) \<Rightarrow>
          (case basin_of lat lon of None \<Rightarrow> basins | Some b \<Rightarrow> set_add b basins)
      | _ \<Rightarrow> basins)"

definition extract_ocean_basins_fast ::
  "(string list \<Rightarrow> string list) \<Rightarrow> obis_data option \<Rightarrow> string list" where
  "extract_ocean_basins_fast set_order obis =
     (let basins = fold basins_step (take 20 (occurrence_results obis)) []
      in if basins \<noteq> [] then take 3 (set_order basins) else [''Multiple ocean basins''])"

section \<open>TextHeuristics: the groups of the depth patterns\<close>




section \<open>EnrichmentAggregator: get_complete_species_data_parallel\<close>

text \<open>
  From here on the upstream services are seen through the functions that wrap
  \<^verbatim>\<open>api_request_with_cache\<close>: a \<open>world\<close> tells, for each request the pipeline makes, what the
  wrapper hands back (\<open>None\<close> for a failed request, an empty answer or an answer of the wrong
  shape), the same answer whenever the request is repeated during one resolution. It also
  tells which of the four futures of an enrichment raise at \<^verbatim>\<open>future.result(timeout=10)\<close>,
  and the order in which a \<^verbatim>\<open>set\<close> of strings is enumerated.

  The records carry the fields the routines below read, with the types the upstream
  documents (so the blanket \<^verbatim>\<open>except\<close> clauses of the source, which answer malformed
  data, have nothing to catch). An optional string is \<open>None\<close> for JSON \<^verbatim>\<open>null\<close> or a missing
  key unless said otherwise; a missing or null \<^verbatim>\<open>AphiaID\<close> is \<open>0\<close>.
\<close>

datatype classification = Taxon_Node string string "classification option"

record wiki_data =
  wiki_description :: string
  wiki_title :: string
  wiki_url :: "string option"

datatype fetch_task = Classification_Task | Distribution_Task | Obis_Task | Wiki_Task

text \<open>
  An element of a name search: \<open>item_status\<close> and \<open>item_scientificname\<close> are \<open>None\<close> for JSON
  \<^verbatim>\<open>null\<close>, where \<^verbatim>\<open>.lower()\<close> raises and the source skips the item; a missing key is \<open>Some []\<close>.
\<close>

record worms_item =
  item_status :: "string option"
  item_AphiaID :: int
  item_scientificname :: "string option"

record world =
  fetch_record :: "int \<Rightarrow> worms_record option"
  fetch_classification :: "int \<Rightarrow> classification option"
  fetch_distribution :: "int \<Rightarrow> string option list option"
  get_obis_data_fast :: "string \<Rightarrow> obis_data option"
  get_wikipedia_data_fast :: "string \<Rightarrow> wiki_data option"
  fetch_exact :: "string \<Rightarrow> worms_item list option"
  fetch_like :: "string \<Rightarrow> worms_item list option"
  fetch_vernacular :: "string \<Rightarrow> worms_item list option"
  times_out :: "int \<Rightarrow> fetch_task \<Rightarrow> bool"
  set_order :: "string list \<Rightarrow> string list"

text \<open>
  The aggregate record, with the fields that the extraction routines modelled here fill.
  The source's record also has \<^verbatim>\<open>common_name\<close>, \<^verbatim>\<open>habitat\<close>, \<^verbatim>\<open>occurrence_stats\<close>, \<^verbatim>\<open>extract\<close>,
  \<^verbatim>\<open>thumb_url\<close>, \<^verbatim>\<open>image_source\<close> and three more habitat flags, computed from the same inputs
  by routines that always return a value.
\<close>

record species =
  title :: string
  latin_name :: "string option"
  aphia_id :: int
  depth_info :: "depth_info option"
  distribution :: "string list"
  ocean_basins :: "string list"
  taxonomy :: "(string \<times> string) list"
  wiki_page :: "string option"
  provenance :: string
  is_marine :: bool














section \<open>NameResolver\<close>













section \<open>BrowseSampler: browse_marine_animals_fast\<close>

text \<open>
  The catalog of seed terms; \<^verbatim>\<open>random.shuffle\<close> leaves it in some order, which is the
  argument \<open>terms\<close> of the model. \<open>search\<close> stands for \<^verbatim>\<open>search_worms_species_fast\<close>.
  The pacing delay \<^verbatim>\<open>time.sleep(0.3)\<close> after each seed term does not change what is
  collected and is left out.
\<close>

definition all_search_terms :: "string list" where
  "all_search_terms =
     [''whale'', ''dolphin'', ''shark'', ''ray'', ''turtle'', ''seal'', ''octopus'', ''crab'',
      ''jellyfish'', ''starfish'', ''coral'', ''Orcinus orca'', ''Delphinus delphis'',
      ''Carcharodon carcharias'', ''Chelonia mydas'', ''Phoca vitulina'', ''Octopus vulgaris'']"

text \<open>\<^verbatim>\<open>xs[a:b]\<close> for a list and two integers.\<close>

definition slice_index :: "nat \<Rightarrow> int \<Rightarrow> nat" where
  "slice_index len i = (if i < 0 then nat (max (i + int len) 0) else min (nat i) len)"

definition py_slice :: "'a list \<Rightarrow> int \<Rightarrow> int \<Rightarrow> 'a list" where
  "py_slice xs a b =
     take (slice_index (length xs) b - slice_index (length xs) a)
       (drop (slice_index (length xs) a) xs)"

text \<open>
  The inner loop over the results of one seed term. The state is \<^verbatim>\<open>marine_species\<close> and
  \<^verbatim>\<open>seen_aphia_ids\<close>.
\<close>

fun browse_results ::
  "int \<Rightarrow> int \<Rightarrow> species list \<Rightarrow> species list \<times> int list \<Rightarrow> species list \<times> int list" where
  "browse_results offset limit [] st = st"
| "browse_results offset limit (species_data # rest) st =
     (if aphia_id species_data = 0 \<or> aphia_id species_data \<in> set (snd st)
      then browse_results offset limit rest st
      else (let st1 = (if offset \<le> int (length (fst st))
                       then (fst st @ [species_data], set_add (aphia_id species_data) (snd st))
                       else st)
            in if offset + limit \<le> int (length (fst st1)) then st1
               else browse_results offset limit rest st1))"

fun browse_terms ::
  "(string \<Rightarrow> species list) \<Rightarrow> int \<Rightarrow> int \<Rightarrow> string list \<Rightarrow> species list \<times> int list \<Rightarrow>
   species list \<times> int list" where
  "browse_terms search offset limit [] st = st"
| "browse_terms search offset limit (search_term # terms) st =
     (if offset + limit \<le> int (length (fst st)) then st
      else browse_terms search offset limit terms
             (browse_results offset limit (search search_term) st))"

definition browse_marine_animals_fast ::
  "(string \<Rightarrow> species list) \<Rightarrow> string list \<Rightarrow> int \<Rightarrow> int \<Rightarrow> species list" where
  "browse_marine_animals_fast search terms offset limit =
     (let marine_species = fst (browse_terms search offset limit terms ([], []));
          start_idx = min offset (int (length marine_species));
          end_idx = min (offset + limit) (int (length marine_species))
      in py_slice marine_species start_idx end_idx)"

text \<open>
  The invariant of the two loops: \<^verbatim>\<open>seen_aphia_ids\<close> holds the taxon ids of the collected
  records, and no two collected records share one.
\<close>

definition browse_inv :: "species list \<times> int list \<Rightarrow> bool" where
  "browse_inv st = (set (snd st) = aphia_id ` set (fst st) \<and> distinct (map aphia_id (fst st)))"

section \<open>Example inputs\<close>





text \<open>A search that finds one species for every seed term, with the term's length as id.\<close>

definition seed_species :: "string \<Rightarrow> species list" where
  "seed_species t =
     [\<lparr>title = t, latin_name = Some t, aphia_id = int (length t), depth_info = None,
       distribution = [''Global distribution''], ocean_basins = [''Multiple ocean basins''],
       taxonomy = [], wiki_page = None, provenance = ''worms_obis'', is_marine = True\<rparr>]"

section \<open>Facts about the ordered dictionary\<close>





lemma od_delete_absent: "map_of od k = None \<Longrightarrow> od_delete k od = od"
  by (induction od) (auto simp: od_delete_def split: if_splits)

lemma length_move_to_end:
  "distinct (map fst od) \<Longrightarrow> length (move_to_end k od) = length od"
proof (induction od)
  case Nil
  then show ?case by (simp add: move_to_end_def)
next
  case (Cons e od)
  obtain a b where e: "e = (a, b)" by (cases e)
  show ?case
  proof (cases "a = k")
    case True
    with Cons.prems e have "map_of od k = None"
      by (simp add: map_of_eq_None_iff)
    with True e show ?thesis
      by (simp add: move_to_end_def od_delete_def od_delete_absent [unfolded od_delete_def])
  next
    case False
    with Cons e show ?thesis
      by (auto simp: move_to_end_def od_delete_def split: option.splits)
  qed
qed

lemma map_of_od_setitem:
  "map_of (od_setitem k v od) k' = (if k' = k then Some v else map_of od k')"
proof (cases "od_contains k od")
  case True
  have "map_of (map (\<lambda>e. if fst e = k then (k, v) else e) od) k' =
        (if k' = k then (if map_of od k = None then None else Some v) else map_of od k')"
    by (induction od) auto
  with True show ?thesis
    by (auto simp: od_setitem_def od_contains_def)
next
  case False
  then show ?thesis
    by (auto simp: od_setitem_def od_contains_def map_add_def split: option.splits)
qed



section \<open>Facts about APICache\<close>







lemma APICache_set_entry:
  assumes "APICache_set now k v c = Inr c'"
  shows "map_of (cache c') k = Some (v, now) \<and> ttl c' = ttl c \<and> max_size c' = max_size c"
  using assms
  by (auto simp: APICache_set_def map_of_od_setitem popitem_first_def
      split: if_splits sum.splits list.splits)

lemma APICache_set_total:
  assumes "0 < max_size c"
  shows "\<exists>c'. APICache_set now k v c = Inr c'"
  using assms
  by (cases "cache c") (auto simp: APICache_set_def popitem_first_def)



section \<open>ResponseCache: the claims\<close>






section \<open>Facts about api_request_with_cache\<close>

lemma APICache_get_max_size: "max_size (snd (APICache_get now key c)) = max_size c"
  by (simp add: APICache_get_def split: option.splits prod.splits)

lemma cache_store_fields:
  "clock (cache_store key v s) = clock s"
  "requests (cache_store key v s) = requests s"
  "sleeps (cache_store key v s) = sleeps s"
  by (simp_all add: cache_store_def split: sum.splits)

lemma cache_store_entry:
  assumes "0 < max_size (api_cache s)"
  shows "map_of (cache (api_cache (cache_store key v s))) key = Some (v, clock s)"
proof -
  from APICache_set_total [OF assms]
  obtain c where c: "APICache_set (clock s) key v (api_cache s) = Inr c" by blast
  then have "map_of (cache c) key = Some (v, clock s)" by (simp add: APICache_set_entry)
  with c show ?thesis by (simp add: cache_store_def)
qed

section \<open>FetchClient: the claims\<close>

text \<open>
  Claim C5. The request misses the cache, at least one retry is allowed, the first call of
  \<^verbatim>\<open>requests.get\<close> is answered with status 429 and the second with status 200 and a body
  that parses as JSON. Then the function sleeps once, for \<open>2 ^ (0 + 1) = 2\<close> seconds, makes
  exactly two calls, returns the parsed payload, and the cache holds the payload under the
  request's key, stamped with the time of the store.
\<close>

theorem api_request_429_then_200:
  assumes "fst (APICache_get (clock s) (request_key url params cache_key) (api_cache s)) = None"
      and "1 \<le> retries"
      and "0 < max_size (api_cache s)"
      and "snd (net (requests s)) = Response 429 no_content1 body1"
      and "snd (net (Suc (requests s))) = Response 200 False (Parsed payload)"
  shows "fst (api_request_with_cache net url params cache_key retries s) = payload \<and>
         sleeps (snd (api_request_with_cache net url params cache_key retries s)) =
           sleeps s @ [2 ^ (0 + 1)] \<and>
         requests (snd (api_request_with_cache net url params cache_key retries s)) =
           requests s + 2 \<and>
         map_of (cache (api_cache (snd (api_request_with_cache net url params cache_key retries s))))
           (request_key url params cache_key) =
           Some (payload, clock s + fst (net (requests s)) + 2 + fst (net (Suc (requests s))))"
proof -
  let ?key = "request_key url params cache_key"
  let ?s0 = "s\<lparr>api_cache := snd (APICache_get (clock s) ?key (api_cache s))\<rparr>"
  from assms(2) obtain todo where todo: "nat (retries + 1) = Suc (Suc todo)"
    by (cases "nat (retries + 1)"; cases "nat (retries + 1) - 1") auto
  let ?s1 = "?s0\<lparr>clock := clock s + fst (net (requests s)), requests := Suc (requests s)\<rparr>"
  let ?s2 = "sleep (2 ^ (0 + 1)) ?s1"
  let ?s3 = "?s2\<lparr>clock := clock ?s2 + fst (net (Suc (requests s))),
                  requests := Suc (Suc (requests s))\<rparr>"
  have run: "api_request_with_cache net url params cache_key retries s =
      (payload, cache_store ?key payload ?s3)"
    using assms(1,2,4,5) todo
    by (simp add: api_request_with_cache_def Let_def sleep_def)
  have "0 < max_size (api_cache ?s3)"
    using assms(3) by (simp add: sleep_def APICache_get_max_size)
  then have "map_of (cache (api_cache (cache_store ?key payload ?s3))) ?key =
      Some (payload, clock ?s3)"
    by (rule cache_store_entry)
  then show ?thesis
    by (simp add: run cache_store_fields sleep_def)
qed

theorem api_request_429_then_200_witness:
  "fst (api_request_with_cache
     (\<lambda>i. if i = 0 then (1, Response 429 True JSONDecodeError)
          else (1, Response 200 False (Parsed (Some (7::nat)))))
     ''u'' ''None'' None 2
     \<lparr>api_cache = API_CACHE, clock = 0, requests = 0, sleeps = []\<rparr>) = Some 7 \<and>
   sleeps (snd (api_request_with_cache
     (\<lambda>i. if i = 0 then (1, Response 429 True JSONDecodeError)
          else (1, Response 200 False (Parsed (Some (7::nat)))))
     ''u'' ''None'' None 2
     \<lparr>api_cache = API_CACHE, clock = 0, requests = 0, sleeps = []\<rparr>)) = [2] \<and>
   map_of (cache (api_cache (snd (api_request_with_cache
     (\<lambda>i. if i = 0 then (1, Response 429 True JSONDecodeError)
          else (1, Response 200 False (Parsed (Some (7::nat)))))
     ''u'' ''None'' None 2
     \<lparr>api_cache = API_CACHE, clock = 0, requests = 0, sleeps = []\<rparr>)))) ''uNone'' =
     Some (Some 7, 4)"
proof -
  let ?net = "\<lambda>i::nat. if i = 0 then (1::real, Response 429 True JSONDecodeError)
          else (1, Response 200 False (Parsed (Some (7::nat))))"
  let ?s = "\<lparr>api_cache = API_CACHE, clock = 0, requests = 0, sleeps = []\<rparr> :: nat fetch_state"
  have "fst (APICache_get (clock ?s) (request_key ''u'' ''None'' None) (api_cache ?s)) = None"
    by (simp add: API_CACHE_def APICache_get_def)
  moreover have "(1::int) \<le> 2" by simp
  moreover have "0 < max_size (api_cache ?s)" by (simp add: API_CACHE_def)
  moreover have "snd (?net (requests ?s)) = Response 429 True JSONDecodeError" by simp
  moreover have "snd (?net (Suc (requests ?s))) = Response 200 False (Parsed (Some 7))" by simp
  ultimately show ?thesis
    using api_request_429_then_200 [of ?s "''u''" "''None''" None 2 ?net True JSONDecodeError "Some 7"]
    by (simp add: request_key_def)
qed

text \<open>
  Claim C1 at a concrete input. The upstream answers the first call with status 404 and
  would answer any later call with status 200 and a payload. The first request returns
  \<^verbatim>\<open>None\<close> and leaves the entry \<^verbatim>\<open>(None, timestamp)\<close> under the request's key. The same
  request made again at once finds that entry, but \<^verbatim>\<open>get\<close> hands back the stored \<^verbatim>\<open>None\<close> and
  the test \<^verbatim>\<open>cached_data is not None\<close> takes it for a miss: a second call of
  \<^verbatim>\<open>requests.get\<close> is made and its payload is returned.
\<close>

theorem api_request_negative_entry_not_served:
  "api_request_with_cache
     (\<lambda>i. if i = 0 then (1, Response 404 False JSONDecodeError)
          else (1, Response 200 False (Parsed (Some (7::nat)))))
     ''u'' ''None'' None 2
     \<lparr>api_cache = API_CACHE, clock = 0, requests = 0, sleeps = []\<rparr> =
     (None, \<lparr>api_cache = \<lparr>cache = [(''uNone'', (None, 1))], max_size = 2000, ttl = 3600\<rparr>,
             clock = 1, requests = 1, sleeps = []\<rparr>) \<and>
   api_request_with_cache
     (\<lambda>i. if i = 0 then (1, Response 404 False JSONDecodeError)
          else (1, Response 200 False (Parsed (Some (7::nat)))))
     ''u'' ''None'' None 2
     \<lparr>api_cache = \<lparr>cache = [(''uNone'', (None, 1))], max_size = 2000, ttl = 3600\<rparr>,
      clock = 1, requests = 1, sleeps = []\<rparr> =
     (Some 7, \<lparr>api_cache = \<lparr>cache = [(''uNone'', (Some 7, 2))], max_size = 2000, ttl = 3600\<rparr>,
               clock = 2, requests = 2, sleeps = []\<rparr>)"
  by (simp add: api_request_with_cache_def request_key_def API_CACHE_def APICache_get_def
      APICache_set_def cache_store_def move_to_end_def od_delete_def od_contains_def
      od_setitem_def popitem_first_def numeral_3_eq_3)

section \<open>Facts about binary64 rounding\<close>

lemma round_half_even_of_int: "round_half_even (of_int z) = z"
  by (simp add: round_half_even_def)

lemma bitlen_le_52: assumes "0 < n" and "n < 2 ^ 52" shows "bitlen n \<le> 52"
proof (rule ccontr)
  assume "\<not> bitlen n \<le> 52"
  then have "52 \<le> nat (bitlen n - 1)" by simp
  then have "(2::int) ^ 52 \<le> 2 ^ nat (bitlen n - 1)"
    by (rule power_increasing) simp
  also from bitlen_bounds [OF assms(1)] have "2 ^ nat (bitlen n - 1) \<le> n" by simp
  finally show False using assms(2) by simp
qed

lemma floor_log2_small:
  assumes "0 < x" and "x < 2 ^ 52"
  shows "floor_log2 x \<le> 51"
proof (cases "1 \<le> x")
  case True
  then have "0 < \<lfloor>x\<rfloor>" by simp
  moreover have "\<lfloor>x\<rfloor> < 2 ^ 52"
  proof -
    have "\<lfloor>x\<rfloor> < (2 ^ 52 :: int) \<longleftrightarrow> x < of_int (2 ^ 52)" by (rule floor_less_iff)
    with assms(2) show ?thesis by simp
  qed
  ultimately have "bitlen \<lfloor>x\<rfloor> \<le> 52" by (rule bitlen_le_52)
  with True show ?thesis by (simp add: floor_log2_def)
next
  case False
  then show ?thesis
    using bitlen_nonneg [of "\<lceil>1 / x\<rceil> - 1"] by (simp add: floor_log2_def)
qed

lemma float_round_half_int:
  assumes "\<bar>k\<bar> < 2 ^ 53"
  shows "float_round (of_int k / 2) = of_int k / 2"
proof (cases "k = 0")
  case True
  then show ?thesis by (simp add: float_round_def)
next
  case False
  let ?x = "of_int k / 2 :: rat"
  have x0: "?x \<noteq> 0" using False by simp
  have "\<bar>?x\<bar> = of_int \<bar>k\<bar> / 2" by simp
  also have "\<dots> < of_int (2 ^ 53) / 2"
    using assms by (simp only: divide_strict_right_mono of_int_less_iff zero_less_numeral)
  finally have small: "\<bar>?x\<bar> < 2 ^ 52" by simp
  define e where "e = floor_log2 \<bar>?x\<bar> - 52"
  from x0 small have "floor_log2 \<bar>?x\<bar> \<le> 51" by (intro floor_log2_small) simp_all
  then have e: "e \<le> - 1" by (simp add: e_def)
  define j where "j = nat (- e - 1)"
  from e have ej: "e = - int (Suc j)" by (simp add: j_def)
  have p: "(2::rat) powi e = 1 / 2 ^ Suc j"
    by (simp only: ej power_int_minus power_int_of_nat inverse_eq_divide)
  have scaled: "?x / 2 powi e = of_int (k * 2 ^ j)"
    by (simp add: p)
  have "float_round ?x = of_int (round_half_even (?x / 2 powi e)) * 2 powi e"
    using x0 unfolding float_round_def e_def by (simp add: Let_def)
  also have "\<dots> = of_int (k * 2 ^ j) * 2 powi e"
    by (simp only: scaled round_half_even_of_int)
  also have "\<dots> = ?x"
    by (simp add: p)
  finally show ?thesis .
qed

lemma float_round_int:
  assumes "\<bar>k\<bar> < 2 ^ 52"
  shows "float_round (of_int k) = of_int k"
proof -
  from assms have "\<bar>2 * k\<bar> < 2 ^ 53" by simp
  from float_round_half_int [OF this] show ?thesis by simp
qed

section \<open>Facts about the patterns and the depth summary\<close>















section \<open>TextHeuristics: the claims\<close>

lemma depth_from_text_range:
  "map (\<lambda>p. findall p ''found at depths of 200-600 m'') DEPTH_PATTERNS =
     [[], [], [[''200'', ''600'']], [], []] \<and>
   depth_from_text DEPTH_PATTERNS ''found at depths of 200-600 m'' =
     Some \<lparr>min_depth = Some 200, max_depth = Some 600, avg_depth = Some 400,
           record_count = 1, source = ''WoRMS''\<rparr>"
  by code_simp

lemma depth_from_text_single:
  "map (\<lambda>p. findall p ''occurs around 1500 meter'') DEPTH_PATTERNS =
     [[], [], [], [[''1500'']], []] \<and>
   depth_from_text DEPTH_PATTERNS ''occurs around 1500 meter'' =
     Some \<lparr>min_depth = Some 1500, max_depth = Some 1500, avg_depth = Some 1500,
           record_count = 1, source = ''WoRMS''\<rparr>"
  by code_simp

text \<open>
  Claim C8. With no depth among the occurrence records, the text
  \<^verbatim>\<open>found at depths of 200-600 m\<close> is matched by the third pattern only, which gives the
  minimum 200 and the maximum 600; the text \<^verbatim>\<open>occurs around 1500 meter\<close> is matched by the
  fourth pattern only, which gives 1500 as minimum, maximum and average. The patterns are
  tried in the order of \<^verbatim>\<open>DEPTH_PATTERNS\<close> and the first one that matches decides.
\<close>

theorem extract_depth_from_text_examples:
  "extract_depth_from_obis_fast None (worms\<lparr>environment := ''found at depths of 200-600 m''\<rparr>) =
     Some \<lparr>min_depth = Some 200, max_depth = Some 600, avg_depth = Some 400,
           record_count = 1, source = ''WoRMS''\<rparr> \<and>
   map (\<lambda>p. findall p ''found at depths of 200-600 m'') DEPTH_PATTERNS =
     [[], [], [[''200'', ''600'']], [], []] \<and>
   extract_depth_from_obis_fast None (worms\<lparr>environment := ''occurs around 1500 meter''\<rparr>) =
     Some \<lparr>min_depth = Some 1500, max_depth = Some 1500, avg_depth = Some 1500,
           record_count = 1, source = ''WoRMS''\<rparr> \<and>
   map (\<lambda>p. findall p ''occurs around 1500 meter'') DEPTH_PATTERNS =
     [[], [], [], [[''1500'']], []]"
  using depth_from_text_range depth_from_text_single
  by (simp add: extract_depth_from_obis_fast_def obis_depths_def occurrence_results_def
      List.map_filter_def)

text \<open>
  Claim C4 at a concrete input. A pair with longitude \<open>-120\<close> lies west of \<open>-100\<close>, but the
  first test of the chain, \<^verbatim>\<open>lon < -30\<close>, already holds for it, so the pair is binned into
  an Atlantic basin. The branch \<^verbatim>\<open>elif lon < -100\<close> comes after it and is never taken: no
  pair is binned into \<^verbatim>\<open>Eastern Pacific\<close>.
\<close>

theorem basin_west_of_minus_100_is_atlantic:
  "basin_of 10 (- 120) = Some ''North Atlantic'' \<and>
   extract_ocean_basins_fast (\<lambda>xs. xs)
     (Some \<lparr>occurrences = Occurrences_Dict
        [\<lparr>depth = No_Depth, decimalLatitude = Some 10, decimalLongitude = Some (- 120),
          locality = None, waterBody = None, country = None\<rparr>],
        scientific_name = ''Enhydra lutris''\<rparr>) = [''North Atlantic''] \<and>
   (\<forall>lat lon. basin_of lat lon \<noteq> Some ''Eastern Pacific'')"
  by (simp add: basin_of_def extract_ocean_basins_fast_def occurrence_results_def
      basins_step_def set_add_def)




section \<open>EnrichmentAggregator: the claims\<close>




section \<open>NameResolver: the claims\<close>









section \<open>BrowseSampler: the claims\<close>

lemma py_slice_Nil: "py_slice [] a b = []"
  by (simp add: py_slice_def)

lemma browse_results_stays_empty:
  assumes "0 < offset" and "fst st = []"
  shows "fst (browse_results offset limit results st) = []"
  using assms(2)
proof (induction results arbitrary: st)
  case Nil
  then show ?case by simp
next
  case (Cons species_data rest)
  with assms(1) show ?case by (simp add: Let_def)
qed

lemma browse_terms_stays_empty:
  assumes "0 < offset" and "fst st = []"
  shows "fst (browse_terms search offset limit terms st) = []"
  using assms(2)
proof (induction terms arbitrary: st)
  case Nil
  then show ?case by simp
next
  case (Cons search_term terms)
  then show ?case
    using browse_results_stays_empty [OF assms(1)] by simp
qed

lemma browse_results_inv:
  assumes "browse_inv st"
  shows "browse_inv (browse_results offset limit results st)"
  using assms
proof (induction results arbitrary: st)
  case Nil
  then show ?case by simp
next
  case (Cons species_data rest)
  show ?case
  proof (cases "aphia_id species_data = 0 \<or> aphia_id species_data \<in> set (snd st)")
    case True
    with Cons show ?thesis by simp
  next
    case False
    let ?st1 = "if offset \<le> int (length (fst st))
                then (fst st @ [species_data], set_add (aphia_id species_data) (snd st))
                else st"
    from False Cons.prems have "browse_inv ?st1"
      by (auto simp: browse_inv_def set_add_def)
    with False Cons.IH [of ?st1] show ?thesis by (simp add: Let_def)
  qed
qed

lemma browse_terms_inv:
  assumes "browse_inv st"
  shows "browse_inv (browse_terms search offset limit terms st)"
  using assms
  by (induction terms arbitrary: st) (simp_all add: browse_results_inv)

text \<open>
  The part of claim C3 that the code keeps: one call never returns two records with the
  same taxon id.
\<close>

lemma browse_distinct_ids:
  "distinct (map aphia_id (browse_marine_animals_fast search terms offset limit))"
proof -
  have "browse_inv ([], [])" by (simp add: browse_inv_def)
  then have "browse_inv (browse_terms search offset limit terms ([], []))"
    by (rule browse_terms_inv)
  then show ?thesis
    by (simp add: browse_marine_animals_fast_def py_slice_def browse_inv_def Let_def
        take_map [symmetric] drop_map [symmetric] distinct_take distinct_drop)
qed

text \<open>With offset \<open>0\<close> the first three distinct species of the catalog are returned.\<close>

lemma browse_first_page_example:
  "map aphia_id (browse_marine_animals_fast seed_species all_search_terms 0 3) = [5, 7, 3]"
  by code_simp

text \<open>
  Claim C3 for a positive offset. A record is appended only when
  \<^verbatim>\<open>len(marine_species) >= offset\<close>; the list starts empty and nothing else makes it grow, so
  for a positive offset nothing is ever collected and the call returns the empty list,
  whatever the searches find: after \<^verbatim>\<open>sample(0, 20)\<close>, the call \<^verbatim>\<open>sample(20, 5)\<close> adds no
  species.
\<close>

theorem browse_positive_offset_is_empty:
  assumes "0 < offset"
  shows "browse_marine_animals_fast search terms offset limit = []"
  using browse_terms_stays_empty [OF assms, of "([], [])" search limit terms]
  by (simp add: browse_marine_animals_fast_def py_slice_Nil)

theorem browse_positive_offset_is_empty_witness:
  "(0::int) < 20 \<and> browse_marine_animals_fast seed_species all_search_terms 20 5 = [] \<and>
   browse_marine_animals_fast seed_species all_search_terms 3 3 = []"
  using browse_positive_offset_is_empty [of 20 seed_species all_search_terms 5]
    browse_positive_offset_is_empty [of 3 seed_species all_search_terms 3]
  by simp

end
